theory Spec2Isabelle
  imports Main
begin

section \<open>Ambient browser context and provider discovery\<close>

text \<open>
  The widget (the latest revision of \<^verbatim>\<open>wallet-connect\<close>) reads its wallet provider from
  globals of the page. A provider is an object with an identity; like every object it may
  carry a \<^verbatim>\<open>providers\<close> property (the multi-provider list that some extensions put on
  \<^verbatim>\<open>window.ethereum\<close>).
\<close>

datatype provider = Provider (ident: nat) (providers: "provider list option")

record wallet_obj =
  ethProvider :: "provider option"

record sdk_obj =
  wallet :: "wallet_obj option"

record frame_obj =
  frame_sdk :: "sdk_obj option"
  frame_ethereum :: "provider option"

text \<open>
  \<open>has_window\<close> is \<^verbatim>\<open>typeof window !== 'undefined'\<close>; \<open>frame\<close> is \<^verbatim>\<open>window.frame\<close> and
  \<open>ethereum\<close> is \<^verbatim>\<open>window.ethereum\<close>. An absent or undefined property is \<open>None\<close>.
\<close>

record ambient =
  has_window :: bool
  frame :: "frame_obj option"
  ethereum :: "provider option"

text \<open>\<^verbatim>\<open>getFrameSDK\<close>: \<^verbatim>\<open>window.frame?.sdk\<close> when there is a window, undefined otherwise.\<close>

definition getFrameSDK :: "ambient \<Rightarrow> sdk_obj option" where
  "getFrameSDK amb =
     (if has_window amb
      then (case frame amb of None \<Rightarrow> None | Some f \<Rightarrow> frame_sdk f)
      else None)"

text \<open>\<^verbatim>\<open>frameSDK?.wallet?.ethProvider\<close>\<close>

definition sdk_ethProvider :: "sdk_obj option \<Rightarrow> provider option" where
  "sdk_ethProvider s =
     (case s of None \<Rightarrow> None
      | Some k \<Rightarrow> (case wallet k of None \<Rightarrow> None | Some wl \<Rightarrow> ethProvider wl))"

text \<open>\<^verbatim>\<open>(window as any).ethereum?.providers || []\<close>\<close>

definition injectedProviders :: "ambient \<Rightarrow> provider list" where
  "injectedProviders amb =
     (case ethereum amb of None \<Rightarrow> []
      | Some e \<Rightarrow> (case providers e of None \<Rightarrow> [] | Some ps \<Rightarrow> ps))"

text \<open>
  \<^verbatim>\<open>getProvider\<close>, branch by branch as the source has it. The function takes the ambient
  context of the moment of the call and nothing else: it closes over no variable of the
  component, so there is nothing in which a result could be kept between calls. Reading
  properties of the objects above raises nothing, so the \<^verbatim>\<open>catch\<close> clause of the source
  (which returns undefined) has no case here.
\<close>

definition getProvider :: "ambient \<Rightarrow> provider option" where
  "getProvider amb =
     (case sdk_ethProvider (getFrameSDK amb) of
        Some p \<Rightarrow> Some p
      | None \<Rightarrow>
          (if has_window amb \<and> ethereum amb \<noteq> None then ethereum amb
           else if has_window amb then
             (if length (injectedProviders amb) > 0
              then Some (hd (injectedProviders amb))
              else None)
           else None))"

subsection \<open>The resolver as the specification words it\<close>

text \<open>
  The three sources of the specification, each read from the ambient context:
  the host-frame runtime's wallet provider, the provider injected by a browser extension,
  and the first entry of the browser's multi-provider list.
\<close>

definition hostFrameProvider :: "ambient \<Rightarrow> provider option" where
  "hostFrameProvider amb =
     (if has_window amb
      then (case frame amb of None \<Rightarrow> None
            | Some f \<Rightarrow> (case frame_sdk f of None \<Rightarrow> None
                         | Some k \<Rightarrow> (case wallet k of None \<Rightarrow> None
                                      | Some wl \<Rightarrow> ethProvider wl)))
      else None)"

definition browserInjectedProvider :: "ambient \<Rightarrow> provider option" where
  "browserInjectedProvider amb = (if has_window amb then ethereum amb else None)"

definition multiProviderFirst :: "ambient \<Rightarrow> provider option" where
  "multiProviderFirst amb =
     (if has_window amb
      then (case injectedProviders amb of [] \<Rightarrow> None | p # _ \<Rightarrow> Some p)
      else None)"

fun firstMatch :: "'a option list \<Rightarrow> 'a option" where
  "firstMatch [] = None"
| "firstMatch (Some x # _) = Some x"
| "firstMatch (None # rest) = firstMatch rest"

definition resolveProvider_spec :: "ambient \<Rightarrow> provider option" where
  "resolveProvider_spec amb =
     firstMatch [hostFrameProvider amb, browserInjectedProvider amb, multiProviderFirst amb]"

text \<open>A resolver that consults only the first two sources.\<close>

definition resolveProvider_two :: "ambient \<Rightarrow> provider option" where
  "resolveProvider_two amb =
     (case sdk_ethProvider (getFrameSDK amb) of
        Some p \<Rightarrow> Some p
      | None \<Rightarrow> (if has_window amb \<and> ethereum amb \<noteq> None then ethereum amb else None))"

section \<open>Numbers of the script runtime\<close>

text \<open>
  Balances arrive as non-negative big integers and are turned into binary64 numbers by
  \<^verbatim>\<open>Number(balance)\<close>, divided by the literals \<^verbatim>\<open>1e18\<close> and \<^verbatim>\<open>1e6\<close>, and printed by
  \<^verbatim>\<open>toFixed\<close>. A non-negative binary64 value is \<open>Finite m e\<close>, standing for \<open>m * 2 ^ e\<close>,
  or \<open>Infinity\<close>. Rounding is to nearest, ties to even, on 53 significant bits. The
  quotients formed here are zero or at least \<open>10 ^ -18\<close>, far above the subnormal range,
  so gradual underflow does not arise.
\<close>

datatype double = Finite (mant: nat) (expo: int) | Infinity

fun bitlen :: "nat \<Rightarrow> nat" where
  "bitlen n = (if n = 0 then 0 else Suc (bitlen (n div 2)))"

declare bitlen.simps [simp del]

text \<open>The integer nearest to \<open>a / b\<close>, the even one of two equally near.\<close>

definition round_half_even :: "nat \<Rightarrow> nat \<Rightarrow> nat" where
  "round_half_even a b =
     (let q = a div b; r = a mod b
      in if 2 * r < b then q
         else if b < 2 * r then q + 1
         else if even q then q else q + 1)"

text \<open>Numerator and denominator of \<open>(a / b) / 2 ^ e\<close>.\<close>

definition scaled :: "nat \<Rightarrow> nat \<Rightarrow> int \<Rightarrow> nat \<times> nat" where
  "scaled a b e = (if 0 \<le> e then (a, b * 2 ^ nat e) else (a * 2 ^ nat (- e), b))"

text \<open>
  The binary64 value nearest to the fraction \<open>a / b\<close> (\<open>0 < b\<close>): the exponent \<open>e\<close> is
  chosen so that \<open>2 ^ 52 \<le> (a / b) / 2 ^ e < 2 ^ 53\<close>, the significand is rounded, and a
  result of \<open>2 ^ 1024\<close> or more overflows to infinity.
\<close>

definition to_double :: "nat \<Rightarrow> nat \<Rightarrow> double" where
  "to_double a b =
     (if a = 0 then Finite 0 0
      else
        let e0 = int (bitlen a) - int (bitlen b) - 53;
            e = (if 2 ^ 53 * snd (scaled a b e0) \<le> fst (scaled a b e0) then e0 + 1 else e0);
            m = round_half_even (fst (scaled a b e)) (snd (scaled a b e))
        in if 0 \<le> e \<and> 2 ^ 1024 \<le> m * 2 ^ nat e then Infinity else Finite m e)"

text \<open>\<^verbatim>\<open>Number(n)\<close> for a non-negative big integer, and the literals \<^verbatim>\<open>1e18\<close>, \<^verbatim>\<open>1e6\<close>.\<close>

definition Number :: "nat \<Rightarrow> double" where
  "Number n = to_double n 1"

definition lit_1e18 :: double where
  "lit_1e18 = to_double (10 ^ 18) 1"

definition lit_1e6 :: double where
  "lit_1e6 = to_double (10 ^ 6) 1"

text \<open>The exact value of \<open>Finite m e\<close> as a fraction.\<close>

definition fraction :: "nat \<Rightarrow> int \<Rightarrow> nat \<times> nat" where
  "fraction m e = (if 0 \<le> e then (m * 2 ^ nat e, 1) else (m, 2 ^ nat (- e)))"

text \<open>Division \<^verbatim>\<open>x / y\<close> by a finite, non-zero \<open>y\<close>: the exact quotient, rounded.\<close>

fun fdiv :: "double \<Rightarrow> double \<Rightarrow> double" where
  "fdiv (Finite m e) (Finite m' e') =
     to_double (fst (fraction m e) * snd (fraction m' e'))
               (snd (fraction m e) * fst (fraction m' e'))"
| "fdiv Infinity (Finite m' e') = Infinity"
| "fdiv x Infinity = Finite 0 0"

fun digits :: "nat \<Rightarrow> string" where
  "digits n = (if n < 10 then [''0123456789'' ! n]
               else digits (n div 10) @ [''0123456789'' ! (n mod 10)])"

declare digits.simps [simp del]

text \<open>
  Built-ins of the runtime that the widget calls and that are taken as given:
  \<^verbatim>\<open>parseInt(s, 16)\<close> (\<open>None\<close> is \<^verbatim>\<open>NaN\<close>) and the conversion of a number to a string,
  which \<^verbatim>\<open>toFixed\<close> falls back on for infinity and for values of \<open>10 ^ 21\<close> and more.
\<close>

record runtime =
  parseInt16 :: "string \<Rightarrow> int option"
  numberToString :: "double \<Rightarrow> string"

text \<open>
  \<^verbatim>\<open>x.toFixed(f)\<close>: the integer \<open>n\<close> with \<open>n / 10 ^ f\<close> nearest to \<open>x\<close> (the larger of two),
  its decimal digits padded with zeros to \<open>f + 1\<close> places, and a point before the last
  \<open>f\<close> of them.
\<close>

definition toFixed :: "runtime \<Rightarrow> double \<Rightarrow> nat \<Rightarrow> string" where
  "toFixed rt x f =
     (case x of
        Infinity \<Rightarrow> numberToString rt x
      | Finite m e \<Rightarrow>
          (let num = fst (fraction m e); den = snd (fraction m e)
           in if 10 ^ 21 * den \<le> num then numberToString rt x
              else
                let n = (2 * num * 10 ^ f + den) div (2 * den);
                    ds = digits n;
                    padded = (if f \<noteq> 0 \<and> length ds \<le> f
                              then replicate (f + 1 - length ds) (CHR ''0'') @ ds else ds);
                    k = length padded
                in if f \<noteq> 0 then take (k - f) padded @ ''.'' @ drop (k - f) padded
                   else padded))"

section \<open>Session state\<close>

text \<open>
  The signals of the component. \<open>chainId\<close> is a number, \<open>None\<close> standing for \<^verbatim>\<open>NaN\<close>.
\<close>

record session =
  address :: string
  chainId :: "int option"
  isConnected :: bool
  isConnecting :: bool
  error :: string
  ethBalance :: string
  usdcBalance :: string
  isSending :: bool
  showWallet :: bool

text \<open>
  What the component acts on besides its signals: the page's \<^verbatim>\<open>localStorage\<close>, the
  listeners registered on providers through \<^verbatim>\<open>provider.on\<close>, and the contract writes
  handed to the signing client.
\<close>

datatype listener = AccountsChangedHandler | ChainChangedHandler | NoOp

record transfer =
  contract :: string
  recipient :: string
  amount :: nat
  sender :: string

record world = session +
  localStorage :: "string \<rightharpoonup> string"
  subscriptions :: "(provider \<times> string \<times> listener) list"
  submitted :: "transfer list"

definition initial :: "(string \<rightharpoonup> string) \<Rightarrow> world" where
  "initial storage =
     \<lparr> address = [], chainId = Some 0, isConnected = False, isConnecting = False,
       error = [], ethBalance = [], usdcBalance = [], isSending = False,
       showWallet = True, localStorage = storage, subscriptions = [], submitted = [] \<rparr>"

text \<open>
  The status the widget shows: the wallet panel when \<open>isConnected\<close>, otherwise the button,
  labelled "Connecting..." while \<open>isConnecting\<close>.
\<close>

datatype status = Disconnected | Connecting | Connected

definition connectionStatus :: "world \<Rightarrow> status" where
  "connectionStatus w =
     (if isConnected w then Connected
      else if isConnecting w then Connecting
      else Disconnected)"

text \<open>
  A rejected promise carries an error object whose \<^verbatim>\<open>message\<close> may be missing. The replies
  of the outside world during one operation: the provider's answers to the requests the
  operation may send, the chain's answers to the two balance reads (by address), and the
  signing client's answer to the contract write. \<open>Inl\<close> is a rejection; an account list of
  \<open>None\<close> is \<^verbatim>\<open>null\<close> or \<^verbatim>\<open>undefined\<close>.
\<close>

datatype js_error = JsError (message: "string option")

record replies =
  eth_accounts :: "js_error + string list option"
  eth_requestAccounts :: "js_error + string list option"
  eth_chainId :: "js_error + string option"
  getBalance :: "string \<Rightarrow> js_error + nat"
  balanceOf :: "string \<Rightarrow> js_error + nat"
  writeContract :: "js_error + string"

text \<open>\<^verbatim>\<open>m || d\<close> for a string that may be undefined: the empty string is falsy.\<close>

fun or_else :: "string option \<Rightarrow> string \<Rightarrow> string" where
  "or_else None d = d"
| "or_else (Some m) d = (if m = [] then d else m)"

fun is_prefix :: "string \<Rightarrow> string \<Rightarrow> bool" where
  "is_prefix [] ys = True"
| "is_prefix (x # xs) [] = False"
| "is_prefix (x # xs) (y # ys) = (x = y \<and> is_prefix xs ys)"

text \<open>\<^verbatim>\<open>s.includes(needle)\<close>\<close>

fun str_includes :: "string \<Rightarrow> string \<Rightarrow> bool" where
  "str_includes [] needle = (needle = [])"
| "str_includes (c # cs) needle = (is_prefix needle (c # cs) \<or> str_includes cs needle)"

section \<open>Persisted record\<close>

definition saveConnectionState :: "ambient \<Rightarrow> world \<Rightarrow> world" where
  "saveConnectionState amb w =
     (if has_window amb
      then w\<lparr>localStorage :=
               (localStorage w)(''walletConnected'' \<mapsto> ''true'', ''walletAddress'' \<mapsto> address w)\<rparr>
      else w)"

definition clearConnectionState :: "ambient \<Rightarrow> world \<Rightarrow> world" where
  "clearConnectionState amb w =
     (if has_window amb
      then w\<lparr>localStorage :=
               (localStorage w)(''walletConnected'' := None, ''walletAddress'' := None)\<rparr>
      else w)"

section \<open>Balance reads\<close>

text \<open>
  Both functions catch everything they raise. The chain's answer comes from \<open>replies\<close>;
  a missing provider and a failed read are logged to the console and change nothing.
\<close>

definition fetchEthBalance :: "runtime \<Rightarrow> ambient \<Rightarrow> replies \<Rightarrow> string \<Rightarrow> world \<Rightarrow> world" where
  "fetchEthBalance rt amb r addr w =
     (case getProvider amb of
        None \<Rightarrow> w
      | Some provider \<Rightarrow>
          (case getBalance r addr of
             Inl err \<Rightarrow> w
           | Inr balance \<Rightarrow> w\<lparr>ethBalance := toFixed rt (fdiv (Number balance) lit_1e18) 4\<rparr>))"

definition fetchUsdcBalance :: "runtime \<Rightarrow> ambient \<Rightarrow> replies \<Rightarrow> string \<Rightarrow> world \<Rightarrow> world" where
  "fetchUsdcBalance rt amb r addr w =
     (case getProvider amb of
        None \<Rightarrow> w
      | Some provider \<Rightarrow>
          (case balanceOf r addr of
             Inl err \<Rightarrow> w
           | Inr balance \<Rightarrow> w\<lparr>usdcBalance := toFixed rt (fdiv (Number balance) lit_1e6) 2\<rparr>))"

section \<open>Connecting\<close>

text \<open>
  Each operation is modelled as run to completion: the ambient context is the one in force
  during the operation, every \<^verbatim>\<open>await\<close> takes its answer from \<open>replies\<close>, and the helper
  calls that the source does not await (\<^verbatim>\<open>saveConnectionState\<close>, the balance reads started
  by the event handlers) take effect at the place of the call.

  \<^verbatim>\<open>connectWallet\<close> is a \<^verbatim>\<open>try\<close> / \<^verbatim>\<open>catch\<close> / \<^verbatim>\<open>finally\<close>. To tell how the flag
  \<open>isConnecting\<close> is written, the function is run on the state paired with a record of the
  assignments to that flag. An assignment goes through \<open>set_isConnecting\<close>, which writes
  the flag in the state and records the value the flag had in the state just before
  together with the value assigned. Every other step acts on the state alone.
\<close>

type_synonym traced = "world \<times> (bool \<times> bool) list"

definition set_isConnecting :: "bool \<Rightarrow> traced \<Rightarrow> traced" where
  "set_isConnecting v t = ((fst t)\<lparr>isConnecting := v\<rparr>, snd t @ [(isConnecting (fst t), v)])"

definition on_state :: "(world \<Rightarrow> world) \<Rightarrow> traced \<Rightarrow> traced" where
  "on_state f t = (f (fst t), snd t)"

definition connectWallet_catch :: "js_error \<Rightarrow> world \<Rightarrow> world" where
  "connectWallet_catch err w =
     w\<lparr>error := or_else (message err) ''Failed to connect wallet. Please try again.''\<rparr>"

text \<open>
  The \<^verbatim>\<open>try\<close> part, with the \<^verbatim>\<open>catch\<close> clause where a request is rejected. Without a
  provider the source assigns the flag a second time before it returns.
\<close>

definition connectWallet_try :: "runtime \<Rightarrow> ambient \<Rightarrow> replies \<Rightarrow> world \<Rightarrow> traced" where
  "connectWallet_try rt amb r w0 =
     (let t1 = set_isConnecting True (w0, []);
          t2 = on_state (\<lambda>w. w\<lparr>error := []\<rparr>) t1
      in case getProvider amb of
           None \<Rightarrow>
             set_isConnecting False
               (on_state
                  (\<lambda>w. w\<lparr>error :=
                     ''No wallet provider found. Please install MetaMask or use a Farcaster app.''\<rparr>)
                  t2)
         | Some provider \<Rightarrow>
             (case eth_requestAccounts r of
                Inl err \<Rightarrow> on_state (connectWallet_catch err) t2
              | Inr (Some (connectedAddr # others)) \<Rightarrow>
                  (let t3 = on_state (\<lambda>w. w\<lparr>address := connectedAddr, isConnected := True\<rparr>) t2;
                       t4 = on_state (saveConnectionState amb) t3;
                       t5 = on_state (fetchEthBalance rt amb r connectedAddr) t4;
                       t6 = on_state (fetchUsdcBalance rt amb r connectedAddr) t5
                   in case eth_chainId r of
                        Inl err \<Rightarrow> on_state (connectWallet_catch err) t6
                      | Inr None \<Rightarrow> t6
                      | Inr (Some chainIdHex) \<Rightarrow>
                          (if chainIdHex \<noteq> []
                           then on_state (\<lambda>w. w\<lparr>chainId := parseInt16 rt chainIdHex\<rparr>) t6
                           else t6))
              | Inr accounts \<Rightarrow>
                  on_state (\<lambda>w. w\<lparr>error := ''No accounts found. Please try again.''\<rparr>) t2))"

text \<open>The \<^verbatim>\<open>finally\<close> block, run after the \<^verbatim>\<open>try\<close> part however that part ended.\<close>

definition connectWallet_finally :: "traced \<Rightarrow> traced" where
  "connectWallet_finally t = set_isConnecting False t"

definition connectWallet_run :: "runtime \<Rightarrow> ambient \<Rightarrow> replies \<Rightarrow> world \<Rightarrow> traced" where
  "connectWallet_run rt amb r w = connectWallet_finally (connectWallet_try rt amb r w)"

definition connectWallet :: "runtime \<Rightarrow> ambient \<Rightarrow> replies \<Rightarrow> world \<Rightarrow> world" where
  "connectWallet rt amb r w = fst (connectWallet_run rt amb r w)"

section \<open>On first display: existing connection, listeners, cleanup\<close>

definition checkExistingConnection :: "runtime \<Rightarrow> ambient \<Rightarrow> replies \<Rightarrow> world \<Rightarrow> world" where
  "checkExistingConnection rt amb r w =
     (let wasConnected = (has_window amb \<and> localStorage w ''walletConnected'' = Some ''true'');
          savedAddress = (if has_window amb then localStorage w ''walletAddress'' else None)
      in case getProvider amb of
           None \<Rightarrow>
             w\<lparr>error := ''No wallet provider found. Please install MetaMask or use a Farcaster app.''\<rparr>
         | Some provider \<Rightarrow>
             (case eth_accounts r of
                Inl err \<Rightarrow> w\<lparr>error := ''Error checking wallet connection. Please try again.''\<rparr>
              | Inr (Some (connectedAddr # others)) \<Rightarrow>
                  (let w1 = w\<lparr>address := connectedAddr, isConnected := True\<rparr>;
                       w2 = saveConnectionState amb w1;
                       w3 = fetchEthBalance rt amb r connectedAddr w2;
                       w4 = fetchUsdcBalance rt amb r connectedAddr w3
                   in case eth_chainId r of
                        Inl err \<Rightarrow>
                          w4\<lparr>error := ''Error checking wallet connection. Please try again.''\<rparr>
                      | Inr None \<Rightarrow> w4
                      | Inr (Some chainIdHex) \<Rightarrow>
                          (if chainIdHex \<noteq> []
                           then w4\<lparr>chainId := parseInt16 rt chainIdHex\<rparr>
                           else w4))
              | Inr accounts \<Rightarrow>
                  (case savedAddress of
                     None \<Rightarrow> w
                   | Some saved \<Rightarrow>
                       (if wasConnected \<and> saved \<noteq> []
                        then (case eth_requestAccounts r of
                                Inl err \<Rightarrow>
                                  clearConnectionState amb
                                    (w\<lparr>error := ''Failed to reconnect to wallet. Please try connecting again.''\<rparr>)
                              | Inr granted \<Rightarrow>
                                  (let w1 = w\<lparr>address := saved, isConnected := True\<rparr>;
                                       w2 = saveConnectionState amb w1;
                                       w3 = fetchEthBalance rt amb r saved w2
                                   in fetchUsdcBalance rt amb r saved w3))
                        else w))))"

text \<open>The two handlers that \<^verbatim>\<open>setupEventListeners\<close> installs.\<close>

definition accountsChanged :: "runtime \<Rightarrow> ambient \<Rightarrow> replies \<Rightarrow> string list \<Rightarrow> world \<Rightarrow> world" where
  "accountsChanged rt amb r accounts w =
     (case accounts of
        first # others \<Rightarrow>
          (let w1 = w\<lparr>address := first, isConnected := True\<rparr>;
               w2 = saveConnectionState amb w1;
               w3 = fetchEthBalance rt amb r first w2
           in fetchUsdcBalance rt amb r first w3)
      | [] \<Rightarrow>
          (let w1 = w\<lparr>address := [], isConnected := False\<rparr>;
               w2 = clearConnectionState amb w1
           in w2\<lparr>ethBalance := [], usdcBalance := []\<rparr>))"

definition chainChanged :: "runtime \<Rightarrow> ambient \<Rightarrow> replies \<Rightarrow> string \<Rightarrow> world \<Rightarrow> world" where
  "chainChanged rt amb r chainIdHex w =
     (let w1 = w\<lparr>chainId := parseInt16 rt chainIdHex\<rparr>
      in if address w1 \<noteq> []
         then fetchUsdcBalance rt amb r (address w1) (fetchEthBalance rt amb r (address w1) w1)
         else w1)"

text \<open>
  \<^verbatim>\<open>provider.on(event, listener)\<close> of a provider, which is an event emitter: the listener is
  added to those registered for the event; listeners already registered stay.
\<close>

definition provider_on :: "provider \<Rightarrow> string \<Rightarrow> listener \<Rightarrow> world \<Rightarrow> world" where
  "provider_on p event l w = w\<lparr>subscriptions := subscriptions w @ [(p, event, l)]\<rparr>"

definition setupEventListeners :: "ambient \<Rightarrow> world \<Rightarrow> world" where
  "setupEventListeners amb w =
     (case getProvider amb of
        None \<Rightarrow> w
      | Some provider \<Rightarrow>
          provider_on provider ''chainChanged'' ChainChangedHandler
            (provider_on provider ''accountsChanged'' AccountsChangedHandler w))"

text \<open>The function handed to \<^verbatim>\<open>cleanup\<close>.\<close>

definition cleanup :: "ambient \<Rightarrow> world \<Rightarrow> world" where
  "cleanup amb w =
     (case getProvider amb of
        None \<Rightarrow> w
      | Some provider \<Rightarrow>
          provider_on provider ''chainChanged'' NoOp
            (provider_on provider ''accountsChanged'' NoOp w))"

text \<open>
  The provider emitting an event: every listener registered on it for that event is
  called with the payload, in the order of registration.
\<close>

datatype payload = Accounts "string list" | ChainHex string

fun call_listener :: "runtime \<Rightarrow> ambient \<Rightarrow> replies \<Rightarrow> listener \<Rightarrow> payload \<Rightarrow> world \<Rightarrow> world" where
  "call_listener rt amb r AccountsChangedHandler (Accounts accounts) w =
     accountsChanged rt amb r accounts w"
| "call_listener rt amb r ChainChangedHandler (ChainHex chainIdHex) w =
     chainChanged rt amb r chainIdHex w"
| "call_listener rt amb r l pl w = w"

definition listeners_for :: "provider \<Rightarrow> string \<Rightarrow> world \<Rightarrow> listener list" where
  "listeners_for p event w =
     map (\<lambda>s. snd (snd s)) (filter (\<lambda>s. fst s = p \<and> fst (snd s) = event) (subscriptions w))"

definition emit :: "runtime \<Rightarrow> ambient \<Rightarrow> replies \<Rightarrow> provider \<Rightarrow> string \<Rightarrow> payload \<Rightarrow> world \<Rightarrow> world" where
  "emit rt amb r p event pl w =
     fold (\<lambda>l. call_listener rt amb r l pl) (listeners_for p event w) w"

section \<open>Sending a transfer\<close>

definition USDC_CONTRACT :: string where
  "USDC_CONTRACT = ''0x833589fCD6eDb6E08f4c7C32D4f71b54bdA02913''"

definition sendTransaction_catch :: "js_error \<Rightarrow> world \<Rightarrow> world" where
  "sendTransaction_catch err w =
     (if (case message err of None \<Rightarrow> False | Some m \<Rightarrow> str_includes m ''authorized'')
      then w\<lparr>error := ''Please approve the transaction in your wallet''\<rparr>
      else w\<lparr>error := or_else (message err) ''Failed to send transaction''\<rparr>)"

text \<open>
  The contract write and what follows it. The write is recorded in \<open>submitted\<close> when it is
  handed to the signing client.
\<close>

definition sendTransaction_write :: "runtime \<Rightarrow> ambient \<Rightarrow> replies \<Rightarrow> world \<Rightarrow> world" where
  "sendTransaction_write rt amb r w =
     (let w1 = w\<lparr>submitted := submitted w @
                   [\<lparr>contract = USDC_CONTRACT, recipient = address w,
                     amount = 10000, sender = address w\<rparr>]\<rparr>
      in case writeContract r of
           Inl err \<Rightarrow> sendTransaction_catch err w1
         | Inr hash \<Rightarrow> fetchUsdcBalance rt amb r (address w1) w1)"

text \<open>
  \<^verbatim>\<open>sendTransaction\<close>. Reading \<^verbatim>\<open>window.frame\<close> is not guarded and lies outside the \<^verbatim>\<open>try\<close>:
  without a window it raises, and the call is rejected (\<open>Inl\<close>) with the state as it was.
\<close>

definition sendTransaction :: "runtime \<Rightarrow> ambient \<Rightarrow> replies \<Rightarrow> world \<Rightarrow> js_error + world" where
  "sendTransaction rt amb r w =
     (if \<not> isConnected w then Inr (w\<lparr>error := ''Please connect your wallet first''\<rparr>)
      else if \<not> has_window amb then Inl (JsError (Some ''window is not defined''))
      else
        case (case (case frame amb of None \<Rightarrow> None | Some f \<Rightarrow> frame_ethereum f) of
                Some p \<Rightarrow> Some p
              | None \<Rightarrow> ethereum amb) of
          None \<Rightarrow> Inr (w\<lparr>error := ''No Ethereum provider found''\<rparr>)
        | Some eth \<Rightarrow>
            (case eth_accounts r of
               Inl err \<Rightarrow> Inr (sendTransaction_catch err w)
             | Inr (Some (a # others)) \<Rightarrow> Inr (sendTransaction_write rt amb r w)
             | Inr accounts \<Rightarrow>
                 (case eth_requestAccounts r of
                    Inl err \<Rightarrow> Inr (w\<lparr>error := ''Please approve the wallet connection request''\<rparr>)
                  | Inr granted \<Rightarrow> Inr (sendTransaction_write rt amb r w))))"

section \<open>Runs of the session controller\<close>

text \<open>
  The operations that change the session, each with the ambient context and the replies
  it meets. Initialization is the check for an existing connection followed, after the
  delay, by the installation of the listeners in the context of that later moment.
\<close>

datatype operation =
    InitializeSession ambient replies ambient
  | Connect ambient replies
  | AccountsChangedEvent ambient replies "string list"
  | ChainChangedEvent ambient replies string
  | SendTransfer ambient replies

fun step :: "runtime \<Rightarrow> operation \<Rightarrow> world \<Rightarrow> world" where
  "step rt (InitializeSession amb r amb') w =
     setupEventListeners amb' (checkExistingConnection rt amb r w)"
| "step rt (Connect amb r) w = connectWallet rt amb r w"
| "step rt (AccountsChangedEvent amb r accounts) w = accountsChanged rt amb r accounts w"
| "step rt (ChainChangedEvent amb r chainIdHex) w = chainChanged rt amb r chainIdHex w"
| "step rt (SendTransfer amb r) w =
     (case sendTransaction rt amb r w of Inl err \<Rightarrow> w | Inr w' \<Rightarrow> w')"

fun run :: "runtime \<Rightarrow> operation list \<Rightarrow> world \<Rightarrow> world" where
  "run rt [] w = w"
| "run rt (op # ops) w = run rt ops (step rt op w)"

text \<open>
  An account reported by a provider is an address string \<^verbatim>\<open>0x...\<close>, never the empty string.
\<close>

definition accounts_ok :: "string list \<Rightarrow> bool" where
  "accounts_ok accounts = list_all (\<lambda>a. a \<noteq> []) accounts"

fun reply_ok :: "js_error + string list option \<Rightarrow> bool" where
  "reply_ok (Inr (Some accounts)) = accounts_ok accounts"
| "reply_ok other = True"

fun well_formed :: "operation \<Rightarrow> bool" where
  "well_formed (InitializeSession amb r amb') = reply_ok (eth_accounts r)"
| "well_formed (Connect amb r) = reply_ok (eth_requestAccounts r)"
| "well_formed (AccountsChangedEvent amb r accounts) = accounts_ok accounts"
| "well_formed (ChainChangedEvent amb r chainIdHex) = True"
| "well_formed (SendTransfer amb r) = True"

definition session_invariant :: "world \<Rightarrow> bool" where
  "session_invariant w = ((connectionStatus w = Connected) = (address w \<noteq> []))"

section \<open>Concrete contexts\<close>

text \<open>
  A page with no wallet at all, a page with one browser extension, and a page inside the
  host frame; a runtime; and answers of the outside world.
\<close>

definition bare_page :: ambient where
  "bare_page = \<lparr> has_window = True, frame = None, ethereum = None \<rparr>"

definition extension_page :: ambient where
  "extension_page = \<lparr> has_window = True, frame = None, ethereum = Some (Provider 1 None) \<rparr>"

definition plain_runtime :: runtime where
  "plain_runtime = \<lparr> parseInt16 = (\<lambda>s. None), numberToString = (\<lambda>x. []) \<rparr>"

text \<open>A wallet that holds one account and grants every request.\<close>

definition granting :: replies where
  "granting =
     \<lparr> eth_accounts = Inr (Some [''0xabc'']),
       eth_requestAccounts = Inr (Some [''0xabc'']),
       eth_chainId = Inr (Some ''0x2105''),
       getBalance = (\<lambda>a. Inr 1500000000000000000),
       balanceOf = (\<lambda>a. Inr 1234567),
       writeContract = Inr ''0xhash'' \<rparr>"

text \<open>A wallet in which the user turns the authorization request down.\<close>

definition rejecting :: replies where
  "rejecting =
     \<lparr> eth_accounts = Inr (Some []),
       eth_requestAccounts = Inl (JsError (Some ''User rejected the request.'')),
       eth_chainId = Inr (Some ''0x2105''),
       getBalance = (\<lambda>a. Inr 0),
       balanceOf = (\<lambda>a. Inr 0),
       writeContract = Inl (JsError (Some ''User rejected the request.'')) \<rparr>"

text \<open>A provider that reports the empty string as its only account.\<close>

definition blank_account :: replies where
  "blank_account =
     \<lparr> eth_accounts = Inr (Some [[]]),
       eth_requestAccounts = Inr (Some [[]]),
       eth_chainId = Inr (Some ''0x2105''),
       getBalance = (\<lambda>a. Inr 0),
       balanceOf = (\<lambda>a. Inr 0),
       writeContract = Inr ''0xhash'' \<rparr>"

text \<open>A session that is connected to the account \<open>0xabc\<close>, and the same with a connect in flight.\<close>

definition connected_session :: world where
  "connected_session = (initial Map.empty)\<lparr>address := ''0xabc'', isConnected := True\<rparr>"

definition connecting_session :: world where
  "connecting_session = (initial Map.empty)\<lparr>isConnecting := True\<rparr>"

section \<open>Provider discovery: results\<close>

lemma hostFrameProvider_eq: "hostFrameProvider amb = sdk_ethProvider (getFrameSDK amb)"
  by (simp add: hostFrameProvider_def sdk_ethProvider_def getFrameSDK_def
      split: option.splits)

lemma firstMatch_three:
  "firstMatch [a, b, c] =
     (case a of Some x \<Rightarrow> Some x | None \<Rightarrow> (case b of Some y \<Rightarrow> Some y | None \<Rightarrow> c))"
  by (cases a; cases b; cases c) simp_all

text \<open>
  C2. Every call of \<open>getProvider\<close> returns what the ordered resolution of the specification
  gives in the ambient context of that call: the host frame's wallet provider if it
  exists, else the provider injected by a browser extension if it exists, else the first
  entry of the multi-provider list if there is one, else nothing. The result depends on
  the context of the call alone; nothing is remembered from an earlier call.
\<close>

theorem getProvider_resolution_order: "getProvider amb = resolveProvider_spec amb"
proof -
  have third: "(if 0 < length xs then Some (hd xs) else None) =
      (case xs of [] \<Rightarrow> None | p # _ \<Rightarrow> Some p)" for xs :: "provider list"
    by (cases xs) simp_all
  show ?thesis
    unfolding getProvider_def resolveProvider_spec_def firstMatch_three
      hostFrameProvider_eq [symmetric] browserInjectedProvider_def multiProviderFirst_def third
    by (simp split: option.splits)
qed

text \<open>
  C10. The multi-provider branch of \<open>getProvider\<close> never yields a provider. The list is read
  as a property of \<^verbatim>\<open>window.ethereum\<close>; wherever the host-frame provider and the injected
  provider are both absent, the list has no first entry either. Hence \<open>getProvider\<close> is
  equal, in every context, to the resolver that consults the first two sources only.
\<close>

theorem multi_provider_branch_dead:
  "(hostFrameProvider amb = None \<and> browserInjectedProvider amb = None
      \<longrightarrow> multiProviderFirst amb = None)
   \<and> getProvider amb = resolveProvider_two amb"
  by (auto simp: getProvider_def resolveProvider_two_def browserInjectedProvider_def
      multiProviderFirst_def injectedProviders_def split: option.splits if_splits)

theorem multi_provider_branch_dead_witness:
  "hostFrameProvider bare_page = None \<and> browserInjectedProvider bare_page = None
   \<and> multiProviderFirst bare_page = None
   \<and> getProvider bare_page = resolveProvider_two bare_page"
  using multi_provider_branch_dead [of bare_page]
  by (simp add: hostFrameProvider_def browserInjectedProvider_def bare_page_def)

section \<open>Balance reads: results\<close>

text \<open>
  C8. A balance read changes no field but its own balance, whatever happens: with no
  provider, with a failed chain read, and with a balance delivered. In particular the
  error message of the session (\<open>error\<close>) stays as it was. This holds for the read of the
  native balance and for the read of the token balance.
\<close>

theorem balance_reads_frame:
  "fetchEthBalance rt amb r a w = w\<lparr>ethBalance := ethBalance (fetchEthBalance rt amb r a w)\<rparr>
   \<and> error (fetchEthBalance rt amb r a w) = error w
   \<and> fetchUsdcBalance rt amb r a w = w\<lparr>usdcBalance := usdcBalance (fetchUsdcBalance rt amb r a w)\<rparr>
   \<and> error (fetchUsdcBalance rt amb r a w) = error w"
  by (simp add: fetchEthBalance_def fetchUsdcBalance_def split: option.splits sum.splits)

lemma format_eth: "toFixed rt (fdiv (Number 1500000000000000000) lit_1e18) 4 = ''1.5000''"
  by (simp add: toFixed_def fraction_def Number_def lit_1e18_def to_double_def bitlen.simps
      scaled_def round_half_even_def Let_def digits.simps)

lemma format_usdc: "toFixed rt (fdiv (Number 1234567) lit_1e6) 2 = ''1.23''"
  by (simp add: toFixed_def fraction_def Number_def lit_1e6_def to_double_def bitlen.simps
      scaled_def round_half_even_def Let_def digits.simps)

text \<open>
  The binary64 values met on the way: \<open>1.5 * 10 ^ 18\<close> and \<open>10 ^ 18\<close> are exact, and
  \<open>1234567 / 10 ^ 6\<close> is rounded to \<open>5559995481163911 / 2 ^ 52\<close>.
\<close>

lemma example_doubles:
  "Number 1500000000000000000 = Finite 5859375000000000 8"
  "lit_1e18 = Finite 7812500000000000 7"
  "fdiv (Number 1500000000000000000) lit_1e18 = Finite 6755399441055744 (- 52)"
  "fdiv (Number 1234567) lit_1e6 = Finite 5559995481163911 (- 52)"
  by (simp_all add: Number_def lit_1e18_def lit_1e6_def to_double_def bitlen.simps scaled_def
      round_half_even_def fraction_def Let_def)

lemma extension_page_provider: "getProvider extension_page = Some (Provider 1 None)"
  by (simp add: getProvider_def getFrameSDK_def sdk_ethProvider_def extension_page_def)

text \<open>
  C5. When a provider is resolved and the chain reports a native balance of
  1500000000000000000 wei, \<open>fetchEthBalance\<close> stores the string \<open>1.5000\<close>; when the chain
  reports a token balance of 1234567 base units, \<open>fetchUsdcBalance\<close> stores \<open>1.23\<close>.
\<close>

theorem balance_formatting:
  assumes "getProvider amb = Some p"
    and "getBalance r a = Inr 1500000000000000000"
    and "balanceOf r a = Inr 1234567"
  shows "ethBalance (fetchEthBalance rt amb r a w) = ''1.5000''
         \<and> usdcBalance (fetchUsdcBalance rt amb r a w) = ''1.23''"
  using assms by (simp add: fetchEthBalance_def fetchUsdcBalance_def format_eth format_usdc)

theorem balance_formatting_witness:
  "getProvider extension_page = Some (Provider 1 None)
   \<and> getBalance granting ''0xabc'' = Inr 1500000000000000000
   \<and> balanceOf granting ''0xabc'' = Inr 1234567
   \<and> ethBalance (fetchEthBalance plain_runtime extension_page granting ''0xabc'' (initial Map.empty))
       = ''1.5000''
   \<and> usdcBalance (fetchUsdcBalance plain_runtime extension_page granting ''0xabc'' (initial Map.empty))
       = ''1.23''"
proof -
  have e: "getBalance granting ''0xabc'' = Inr 1500000000000000000"
    by (simp add: granting_def)
  have u: "balanceOf granting ''0xabc'' = Inr 1234567"
    by (simp add: granting_def)
  show ?thesis
    using balance_formatting [OF extension_page_provider e u, of plain_runtime "initial Map.empty"]
      extension_page_provider e u
    by simp
qed

section \<open>Connecting: results\<close>

lemma isConnecting_kept:
  "isConnecting (fetchEthBalance rt amb r a w) = isConnecting w"
  "isConnecting (fetchUsdcBalance rt amb r a w) = isConnecting w"
  "isConnecting (saveConnectionState amb w) = isConnecting w"
  "isConnecting (connectWallet_catch err w) = isConnecting w"
  by (simp_all add: fetchEthBalance_def fetchUsdcBalance_def saveConnectionState_def
      connectWallet_catch_def split: option.splits sum.splits)

lemma bare_page_provider: "getProvider bare_page = None"
  by (simp add: getProvider_def getFrameSDK_def sdk_ethProvider_def injectedProviders_def
      bare_page_def)

text \<open>
  C1, as amended. Every invocation of \<open>connectWallet\<close> ends, whatever the outcome (no
  provider, a rejected request, an empty account list, a connection), with \<open>isConnecting\<close>
  clear, so the status is not \<open>Connecting\<close>. The \<^verbatim>\<open>finally\<close> block runs once per invocation
  and makes the last assignment to the flag. When a provider is found the flag is
  assigned twice: set at entry, and cleared by the \<^verbatim>\<open>finally\<close> block, which finds it set.
  When no provider is found the flag is assigned three times: set at entry, cleared by
  the assignment before the early return, and assigned clear again by the \<^verbatim>\<open>finally\<close>
  block, which finds it already clear. Each assignment is given as the value the flag
  had in the state before it and the value assigned.
\<close>

theorem connectWallet_clears_connecting:
  "isConnecting (connectWallet rt amb r w) = False
   \<and> connectionStatus (connectWallet rt amb r w) \<noteq> Connecting
   \<and> snd (connectWallet_run rt amb r w) =
       (if getProvider amb = None
        then [(isConnecting w, True), (True, False), (False, False)]
        else [(isConnecting w, True), (True, False)])"
proof -
  have flag: "isConnecting (connectWallet rt amb r w) = False"
    by (simp add: connectWallet_def connectWallet_run_def connectWallet_finally_def
        set_isConnecting_def)
  have writes: "snd (connectWallet_run rt amb r w) =
       (if getProvider amb = None
        then [(isConnecting w, True), (True, False), (False, False)]
        else [(isConnecting w, True), (True, False)])"
    by (simp add: connectWallet_run_def connectWallet_finally_def connectWallet_try_def
        set_isConnecting_def on_state_def isConnecting_kept Let_def
        split: option.splits sum.splits list.splits)
  show ?thesis
    using flag writes by (simp add: connectionStatus_def)
qed

text \<open>
  The claim as first stated fails on a page without any wallet: the flag is assigned
  clear twice, and the assignment of the \<^verbatim>\<open>finally\<close> block goes from clear to clear, so
  the flag set at entry was cleared before the \<^verbatim>\<open>finally\<close> block ran and not by it.
\<close>

theorem connectWallet_clears_connecting_counterexample:
  "getProvider bare_page = None
   \<and> snd (connectWallet_run plain_runtime bare_page granting (initial Map.empty)) =
       [(False, True), (True, False), (False, False)]
   \<and> isConnecting (fst (connectWallet_try plain_runtime bare_page granting (initial Map.empty)))
       = False"
  by (simp add: bare_page_provider connectWallet_run_def connectWallet_finally_def
      connectWallet_try_def set_isConnecting_def on_state_def initial_def)

text \<open>
  C3, as amended. When a provider is resolved and the authorization request is rejected,
  \<open>connectWallet\<close> sets \<open>error\<close> to the message of the rejection (to a fixed text when the
  message is missing or empty), clears \<open>isConnecting\<close>, and leaves every other field,
  \<open>address\<close> and \<open>isConnected\<close> among them, as it was. So the session ends \<open>Disconnected\<close>
  with an empty address when it started so, and stays connected to its account when it
  was connected.
\<close>

theorem connectWallet_rejected:
  assumes "getProvider amb = Some p" and "eth_requestAccounts r = Inl err"
  shows "connectWallet rt amb r w =
           w\<lparr>error := or_else (message err) ''Failed to connect wallet. Please try again.'',
             isConnecting := False\<rparr>
         \<and> connectionStatus (connectWallet rt amb r w) =
             (if isConnected w then Connected else Disconnected)"
  using assms
  by (simp add: connectWallet_def connectWallet_run_def connectWallet_finally_def
      connectWallet_try_def set_isConnecting_def on_state_def connectWallet_catch_def connectionStatus_def)

theorem connectWallet_rejected_witness:
  "getProvider extension_page = Some (Provider 1 None)
   \<and> eth_requestAccounts rejecting = Inl (JsError (Some ''User rejected the request.''))
   \<and> connectWallet plain_runtime extension_page rejecting (initial Map.empty) =
       (initial Map.empty)\<lparr>error := ''User rejected the request.'', isConnecting := False\<rparr>
   \<and> connectionStatus (connectWallet plain_runtime extension_page rejecting (initial Map.empty))
       = Disconnected"
proof -
  have q: "eth_requestAccounts rejecting = Inl (JsError (Some ''User rejected the request.''))"
    by (simp add: rejecting_def)
  show ?thesis
    using connectWallet_rejected [OF extension_page_provider q, of plain_runtime "initial Map.empty"]
      extension_page_provider q
    by (simp add: initial_def connectionStatus_def)
qed

text \<open>
  The claim as first stated fails: a session connected to \<open>0xabc\<close> in which the user turns
  the request down keeps its address and stays \<open>Connected\<close>.
\<close>

theorem connectWallet_rejected_counterexample:
  "getProvider extension_page = Some (Provider 1 None)
   \<and> eth_requestAccounts rejecting = Inl (JsError (Some ''User rejected the request.''))
   \<and> address (connectWallet plain_runtime extension_page rejecting connected_session) = ''0xabc''
   \<and> connectionStatus (connectWallet plain_runtime extension_page rejecting connected_session)
       = Connected"
  by (simp add: connectWallet_def connectWallet_run_def connectWallet_finally_def
      connectWallet_try_def set_isConnecting_def on_state_def connectWallet_catch_def connectionStatus_def getProvider_def
      getFrameSDK_def sdk_ethProvider_def extension_page_def rejecting_def
      connected_session_def initial_def)

section \<open>Events: results\<close>

text \<open>
  C4, as amended. In a page, whatever the session was before, the account-change handler
  called with an empty list clears \<open>address\<close>, \<open>ethBalance\<close> and \<open>usdcBalance\<close>, clears
  \<open>isConnected\<close>, and removes both keys of the persisted record; nothing else changes. The
  handler does not touch \<open>isConnecting\<close>: the status is \<open>Disconnected\<close> afterwards unless a
  connect is in flight, in which case it is \<open>Connecting\<close>.
\<close>

theorem accountsChanged_empty:
  assumes "has_window amb"
  shows "accountsChanged rt amb r [] w =
           w\<lparr>address := [], isConnected := False,
             localStorage := (localStorage w)(''walletConnected'' := None, ''walletAddress'' := None),
             ethBalance := [], usdcBalance := []\<rparr>
         \<and> connectionStatus (accountsChanged rt amb r [] w) =
             (if isConnecting w then Connecting else Disconnected)"
  using assms
  by (simp add: accountsChanged_def clearConnectionState_def connectionStatus_def)

theorem accountsChanged_empty_witness:
  "has_window extension_page
   \<and> accountsChanged plain_runtime extension_page granting [] connected_session =
       connected_session\<lparr>address := [], isConnected := False,
         localStorage := (localStorage connected_session)
            (''walletConnected'' := None, ''walletAddress'' := None),
         ethBalance := [], usdcBalance := []\<rparr>
   \<and> connectionStatus (accountsChanged plain_runtime extension_page granting [] connected_session)
       = Disconnected"
proof -
  have h: "has_window extension_page" by (simp add: extension_page_def)
  show ?thesis
    using accountsChanged_empty [OF h, of plain_runtime granting connected_session] h
    by (simp add: connected_session_def initial_def connectionStatus_def)
qed

text \<open>
  The claim as first stated fails for a session with a connect in flight: after the
  handler has run with an empty list the status is still \<open>Connecting\<close>.
\<close>

theorem accountsChanged_empty_counterexample:
  "connectionStatus connecting_session = Connecting
   \<and> connectionStatus
        (accountsChanged plain_runtime extension_page granting [] connecting_session)
       = Connecting"
  by (simp add: accountsChanged_def clearConnectionState_def connectionStatus_def
      extension_page_def connecting_session_def initial_def)

text \<open>
  C9. The function handed to \<^verbatim>\<open>cleanup\<close> is meant to detach the two handlers (its comment
  says "Remove specific event listeners") but calls \<^verbatim>\<open>provider.on\<close> with two fresh empty
  callbacks. On a page with an extension, after the listeners are installed and the
  cleanup has run, both handlers are still registered, each followed by an empty
  callback, and an account-change event with an empty list still clears the address of
  the session.
\<close>

theorem cleanup_leaves_handlers_subscribed:
  "getProvider extension_page = Some (Provider 1 None)
   \<and> listeners_for (Provider 1 None) ''accountsChanged''
        (cleanup extension_page (setupEventListeners extension_page connected_session))
       = [AccountsChangedHandler, NoOp]
   \<and> listeners_for (Provider 1 None) ''chainChanged''
        (cleanup extension_page (setupEventListeners extension_page connected_session))
       = [ChainChangedHandler, NoOp]
   \<and> address (cleanup extension_page (setupEventListeners extension_page connected_session))
       = ''0xabc''
   \<and> address (emit plain_runtime extension_page granting (Provider 1 None) ''accountsChanged''
         (Accounts [])
         (cleanup extension_page (setupEventListeners extension_page connected_session))) = []"
  by (simp add: cleanup_def setupEventListeners_def provider_on_def emit_def listeners_for_def
      accountsChanged_def clearConnectionState_def getProvider_def
      getFrameSDK_def sdk_ethProvider_def extension_page_def connected_session_def initial_def
      Let_def)

section \<open>Sending a transfer: results\<close>

text \<open>
  C7. In every session whose status is not \<open>Connected\<close>, \<open>sendTransaction\<close> returns at once:
  it sets \<open>error\<close> to "Please connect your wallet first" and changes nothing else. In
  particular no contract write is handed to the signing client (\<open>submitted\<close> is as before).
\<close>

theorem sendTransaction_not_connected:
  "connectionStatus w \<noteq> Connected \<Longrightarrow>
     sendTransaction rt amb r w = Inr (w\<lparr>error := ''Please connect your wallet first''\<rparr>)"
  by (simp add: sendTransaction_def connectionStatus_def split: if_splits)

theorem sendTransaction_not_connected_witness:
  "connectionStatus (initial Map.empty) \<noteq> Connected
   \<and> sendTransaction plain_runtime extension_page granting (initial Map.empty) =
       Inr ((initial Map.empty)\<lparr>error := ''Please connect your wallet first''\<rparr>)"
  using sendTransaction_not_connected [of "initial Map.empty" plain_runtime extension_page granting]
  by (simp add: connectionStatus_def initial_def)

section \<open>The session invariant\<close>

lemma fetchEthBalance_keeps [simp]:
  "address (fetchEthBalance rt amb r a w) = address w"
  "isConnected (fetchEthBalance rt amb r a w) = isConnected w"
  by (simp_all add: fetchEthBalance_def split: option.splits sum.splits)

lemma fetchUsdcBalance_keeps [simp]:
  "address (fetchUsdcBalance rt amb r a w) = address w"
  "isConnected (fetchUsdcBalance rt amb r a w) = isConnected w"
  by (simp_all add: fetchUsdcBalance_def split: option.splits sum.splits)

lemma saveConnectionState_keeps [simp]:
  "address (saveConnectionState amb w) = address w"
  "isConnected (saveConnectionState amb w) = isConnected w"
  by (simp_all add: saveConnectionState_def)

lemma clearConnectionState_keeps [simp]:
  "address (clearConnectionState amb w) = address w"
  "isConnected (clearConnectionState amb w) = isConnected w"
  by (simp_all add: clearConnectionState_def)

lemma sendTransaction_catch_keeps [simp]:
  "address (sendTransaction_catch err w) = address w"
  "isConnected (sendTransaction_catch err w) = isConnected w"
  by (simp_all add: sendTransaction_catch_def)

lemma sendTransaction_write_keeps [simp]:
  "address (sendTransaction_write rt amb r w) = address w"
  "isConnected (sendTransaction_write rt amb r w) = isConnected w"
  by (simp_all add: sendTransaction_write_def Let_def split: sum.splits)

lemma session_invariant_iff: "session_invariant w = (isConnected w = (address w \<noteq> []))"
  by (simp add: session_invariant_def connectionStatus_def)

lemma session_invariant_initial: "session_invariant (initial storage)"
  by (simp add: session_invariant_iff initial_def)

lemma checkExistingConnection_invariant:
  "session_invariant w \<Longrightarrow> reply_ok (eth_accounts r) \<Longrightarrow>
     session_invariant (checkExistingConnection rt amb r w)"
  by (auto simp: session_invariant_iff checkExistingConnection_def Let_def accounts_ok_def
      split: option.splits sum.splits list.splits)

lemma setupEventListeners_invariant:
  "session_invariant (setupEventListeners amb w) = session_invariant w"
  by (simp add: session_invariant_iff setupEventListeners_def provider_on_def
      split: option.splits)

lemma connectWallet_invariant:
  "session_invariant w \<Longrightarrow> reply_ok (eth_requestAccounts r) \<Longrightarrow>
     session_invariant (connectWallet rt amb r w)"
  by (auto simp: session_invariant_iff connectWallet_def connectWallet_run_def
      connectWallet_finally_def connectWallet_try_def set_isConnecting_def on_state_def connectWallet_catch_def Let_def
      accounts_ok_def split: option.splits sum.splits list.splits)

lemma accountsChanged_invariant:
  "accounts_ok accounts \<Longrightarrow> session_invariant (accountsChanged rt amb r accounts w)"
  by (auto simp: session_invariant_iff accountsChanged_def Let_def accounts_ok_def
      split: list.splits)

lemma chainChanged_invariant:
  "session_invariant w \<Longrightarrow> session_invariant (chainChanged rt amb r c w)"
  by (simp add: session_invariant_iff chainChanged_def Let_def)

lemma sendTransaction_invariant:
  "session_invariant w \<Longrightarrow> sendTransaction rt amb r w = Inr w' \<Longrightarrow> session_invariant w'"
  by (auto simp: session_invariant_iff sendTransaction_def
      split: if_splits option.splits sum.splits list.splits)

lemma step_invariant:
  "session_invariant w \<Longrightarrow> well_formed op \<Longrightarrow> session_invariant (step rt op w)"
proof (cases op)
  case (SendTransfer amb r)
  assume "session_invariant w"
  then show ?thesis
    using SendTransfer sendTransaction_invariant [of w rt amb r]
    by (simp split: sum.splits)
qed (simp_all add: checkExistingConnection_invariant setupEventListeners_invariant
      connectWallet_invariant accountsChanged_invariant chainChanged_invariant)

lemma run_invariant:
  "session_invariant w \<Longrightarrow> list_all well_formed ops \<Longrightarrow> session_invariant (run rt ops w)"
  by (induction ops arbitrary: w) (simp_all add: step_invariant)

lemma well_formed_take: "list_all well_formed ops \<Longrightarrow> list_all well_formed (take n ops)"
  by (auto simp: list_all_iff dest: in_set_takeD)

text \<open>
  One half of the invariant needs nothing of the provider: a session with an address is
  connected.
\<close>

lemma checkExistingConnection_address:
  "(address w \<noteq> [] \<longrightarrow> isConnected w) \<Longrightarrow>
     address (checkExistingConnection rt amb r w) \<noteq> [] \<longrightarrow>
     isConnected (checkExistingConnection rt amb r w)"
  by (auto simp: checkExistingConnection_def Let_def
      split: option.splits sum.splits list.splits)

lemma connectWallet_address:
  "(address w \<noteq> [] \<longrightarrow> isConnected w) \<Longrightarrow>
     address (connectWallet rt amb r w) \<noteq> [] \<longrightarrow> isConnected (connectWallet rt amb r w)"
  by (auto simp: connectWallet_def connectWallet_run_def connectWallet_finally_def
      connectWallet_try_def set_isConnecting_def on_state_def connectWallet_catch_def Let_def
      split: option.splits sum.splits list.splits)

lemma accountsChanged_address:
  "address (accountsChanged rt amb r accounts w) \<noteq> [] \<longrightarrow>
     isConnected (accountsChanged rt amb r accounts w)"
  by (auto simp: accountsChanged_def Let_def split: list.splits)

lemma sendTransaction_address:
  "(address w \<noteq> [] \<longrightarrow> isConnected w) \<Longrightarrow> sendTransaction rt amb r w = Inr w' \<Longrightarrow>
     address w' \<noteq> [] \<longrightarrow> isConnected w'"
  by (auto simp: sendTransaction_def split: if_splits option.splits sum.splits list.splits)

lemma step_address:
  "(address w \<noteq> [] \<longrightarrow> isConnected w) \<Longrightarrow>
     address (step rt op w) \<noteq> [] \<longrightarrow> isConnected (step rt op w)"
proof (cases op)
  case (InitializeSession amb r amb')
  assume "address w \<noteq> [] \<longrightarrow> isConnected w"
  then show ?thesis
    using InitializeSession checkExistingConnection_address [of w rt amb r]
    by (simp add: setupEventListeners_def provider_on_def split: option.splits)
next
  case (Connect amb r)
  assume "address w \<noteq> [] \<longrightarrow> isConnected w"
  then show ?thesis
    using Connect connectWallet_address [of w rt amb r] by simp
next
  case (AccountsChangedEvent amb r accounts)
  then show ?thesis
    using accountsChanged_address [of rt amb r accounts w] by simp
next
  case (ChainChangedEvent amb r c)
  assume "address w \<noteq> [] \<longrightarrow> isConnected w"
  then show ?thesis
    using ChainChangedEvent by (simp add: chainChanged_def Let_def)
next
  case (SendTransfer amb r)
  assume "address w \<noteq> [] \<longrightarrow> isConnected w"
  then show ?thesis
    using SendTransfer sendTransaction_address [of w rt amb r]
    by (simp split: sum.splits)
qed

lemma run_address:
  "(address w \<noteq> [] \<longrightarrow> isConnected w) \<Longrightarrow>
     address (run rt ops w) \<noteq> [] \<longrightarrow> isConnected (run rt ops w)"
proof (induction ops arbitrary: w)
  case Nil
  then show ?case by simp
next
  case (Cons op ops)
  have "address (step rt op w) \<noteq> [] \<longrightarrow> isConnected (step rt op w)"
    using Cons.prems by (rule step_address)
  then show ?case
    using Cons.IH [of "step rt op w"] by simp
qed

text \<open>
  C6, as amended. Start from the session of a fresh page and let the controller perform
  any sequence of its operations (initialization, \<open>connectWallet\<close>, the two event handlers,
  \<open>sendTransaction\<close>), in any ambient contexts and with any replies. After each completed
  operation, that is after every initial part of the sequence, a session whose \<open>address\<close>
  is not empty has the status \<open>Connected\<close>. The converse, and with it the equivalence of
  \<open>Connected\<close> and a non-empty \<open>address\<close>, holds when no provider reply and no
  account-change event in the sequence carries the empty string as an account: the code
  adopts the first account reported without looking at it.
\<close>

theorem session_invariant_holds:
  "(address (run rt (take n ops) (initial storage)) \<noteq> []
      \<longrightarrow> connectionStatus (run rt (take n ops) (initial storage)) = Connected)
   \<and> (list_all well_formed ops
      \<longrightarrow> session_invariant (run rt (take n ops) (initial storage)))"
proof -
  have start: "address (initial storage) \<noteq> [] \<longrightarrow> isConnected (initial storage)"
    by (simp add: initial_def)
  have "address (run rt (take n ops) (initial storage)) \<noteq> []
      \<longrightarrow> isConnected (run rt (take n ops) (initial storage))"
    using start by (rule run_address)
  then have half: "address (run rt (take n ops) (initial storage)) \<noteq> []
      \<longrightarrow> connectionStatus (run rt (take n ops) (initial storage)) = Connected"
    by (simp add: connectionStatus_def)
  have full: "list_all well_formed ops
      \<longrightarrow> session_invariant (run rt (take n ops) (initial storage))"
    by (simp add: run_invariant [OF session_invariant_initial well_formed_take])
  show ?thesis
    using half full by simp
qed

theorem session_invariant_holds_witness:
  "address (run plain_runtime
          (take 2 [InitializeSession bare_page rejecting extension_page,
                   Connect extension_page granting,
                   AccountsChangedEvent extension_page granting [],
                   Connect extension_page rejecting,
                   SendTransfer extension_page granting])
          (initial Map.empty)) \<noteq> []
   \<and> list_all well_formed
     [InitializeSession bare_page rejecting extension_page,
      Connect extension_page granting,
      AccountsChangedEvent extension_page granting [],
      Connect extension_page rejecting,
      SendTransfer extension_page granting]
   \<and> session_invariant
       (run plain_runtime
          (take 2 [InitializeSession bare_page rejecting extension_page,
                   Connect extension_page granting,
                   AccountsChangedEvent extension_page granting [],
                   Connect extension_page rejecting,
                   SendTransfer extension_page granting])
          (initial Map.empty))
   \<and> connectionStatus
       (run plain_runtime
          (take 2 [InitializeSession bare_page rejecting extension_page,
                   Connect extension_page granting,
                   AccountsChangedEvent extension_page granting [],
                   Connect extension_page rejecting,
                   SendTransfer extension_page granting])
          (initial Map.empty)) = Connected"
proof -
  have wf: "list_all well_formed
     [InitializeSession bare_page rejecting extension_page,
      Connect extension_page granting,
      AccountsChangedEvent extension_page granting [],
      Connect extension_page rejecting,
      SendTransfer extension_page granting]"
    by (simp add: accounts_ok_def granting_def rejecting_def)
  have ad: "address (run plain_runtime
        [InitializeSession bare_page rejecting extension_page, Connect extension_page granting]
        (initial Map.empty)) = ''0xabc''"
    by (simp add: connectWallet_def connectWallet_run_def connectWallet_finally_def
        connectWallet_try_def set_isConnecting_def on_state_def extension_page_provider
        granting_def Let_def)
  show ?thesis
    using session_invariant_holds [of plain_runtime 2
        "[InitializeSession bare_page rejecting extension_page,
          Connect extension_page granting,
          AccountsChangedEvent extension_page granting [],
          Connect extension_page rejecting,
          SendTransfer extension_page granting]" Map.empty] wf ad
    by (simp add: numeral_2_eq_2)
qed

text \<open>
  The claim as first stated fails when a provider answers the authorization request with
  the empty string as its account: the session is \<open>Connected\<close> and its \<open>address\<close> is empty.
\<close>

theorem session_invariant_counterexample:
  "eth_requestAccounts blank_account = Inr (Some [[]])
   \<and> connectionStatus
        (run plain_runtime [Connect extension_page blank_account] (initial Map.empty))
       = Connected
   \<and> address (run plain_runtime [Connect extension_page blank_account] (initial Map.empty))
       = []"
  by (simp add: connectionStatus_def connectWallet_def connectWallet_run_def
      connectWallet_finally_def connectWallet_try_def set_isConnecting_def on_state_def
      extension_page_provider blank_account_def Let_def)

end
